theory Spec2Isabelle
  imports Complex_Main "HOL-Library.Sublist"
begin

section \<open>Values of the Python program\<close>

text \<open>
  The program is one Python module, \<^verbatim>\<open>app.py\<close>: a Flask application that asks the Docker
  daemon for the running containers, pulls each container's image to see whether a newer
  one exists, caches the outcome, and starts Watchtower for the containers the
  configuration allows.  Exceptions are values of \<open>py_error\<close>; a call that may raise
  returns \<open>py_error + 'a\<close> with \<open>Inl\<close> for the exception.
\<close>

datatype py_error =
    NotFound            \<comment> \<open>\<^verbatim>\<open>docker.errors.NotFound\<close> (and its subclass \<^verbatim>\<open>ImageNotFound\<close>)\<close>
  | APIError            \<comment> \<open>\<^verbatim>\<open>docker.errors.APIError\<close> other than \<^verbatim>\<open>NotFound\<close>\<close>
  | ValueError string   \<comment> \<open>a \<^verbatim>\<open>ValueError\<close> with this message\<close>
  | IntValueError string
      \<comment> \<open>the \<^verbatim>\<open>ValueError\<close> that \<^verbatim>\<open>int(s)\<close> raises for this string \<open>s\<close>\<close>
  | TypeError
  | AttributeError
  | OverflowError
  | OtherError string   \<comment> \<open>any other subclass of \<^verbatim>\<open>Exception\<close>\<close>

text \<open>
  A Python float is an IEEE 754 double: a rational, or one of the three special values.
  The finite doubles are the rationals that \<open>float64\<close> below leaves as they are.
\<close>

datatype pyfloat = Finite rat | PosInf | NegInf | NaN

text \<open>The number of binary digits of a natural number.\<close>

fun bit_length :: "nat \<Rightarrow> nat" where
  "bit_length n = (if n = 0 then 0 else Suc (bit_length (n div 2)))"

declare bit_length.simps [simp del]

definition pow2 :: "int \<Rightarrow> rat" where
  "pow2 k = (if 0 \<le> k then 2 ^ nat k else 1 / 2 ^ nat (- k))"

text \<open>For a positive rational \<open>a\<close>, the integer \<open>e\<close> with \<open>2 ^ e \<le> a < 2 ^ (e + 1)\<close>.\<close>

definition floor_log2 :: "rat \<Rightarrow> int" where
  "floor_log2 a =
     (let (p, q) = quotient_of a;
          k = int (bit_length (nat p)) - int (bit_length (nat q))
      in if pow2 k \<le> a then k else k - 1)"

definition round_half_even :: "rat \<Rightarrow> int" where
  "round_half_even m =
     (let f = \<lfloor>m\<rfloor>; d = m - of_int f
      in if d < 1 / 2 then f else if 1 / 2 < d then f + 1 else if even f then f else f + 1)"

text \<open>
  The double nearest to a rational, ties to the even significand: 53 significant bits,
  the exponent of the least normal number for the subnormal ones, and infinity from
  \<open>2 ^ 1024\<close> on.  This is the rounding of every arithmetic operation on floats.
\<close>

definition float64 :: "rat \<Rightarrow> pyfloat" where
  "float64 x =
     (if x = 0 then Finite 0
      else let a = \<bar>x\<bar>;
               e = max (floor_log2 a) (- 1022);
               q = pow2 (e - 52);
               y = of_int (round_half_even (a / q)) * q
           in if pow2 1024 \<le> y then (if 0 < x then PosInf else NegInf)
              else Finite (if 0 < x then y else - y))"

text \<open>\<^verbatim>\<open>a - b\<close> for two finite floats, and \<^verbatim>\<open>x >= n\<close> for a float and an integer.\<close>

definition float_sub :: "rat \<Rightarrow> rat \<Rightarrow> pyfloat" where
  "float_sub a b = float64 (a - b)"

fun float_ge_int :: "pyfloat \<Rightarrow> int \<Rightarrow> bool" where
  "float_ge_int (Finite r) n = (of_int n \<le> r)"
| "float_ge_int PosInf n = True"
| "float_ge_int NegInf n = False"
| "float_ge_int NaN n = False"

text \<open>
  What \<^verbatim>\<open>json.load\<close> can return.  A float is a rational or one of the three special
  values that \<^verbatim>\<open>json.load\<close> accepts; an object is the list of its items, read by
  \<open>map_of\<close>.
\<close>

datatype json =
    JNull
  | JBool bool
  | JInt int
  | JFloat pyfloat
  | JStr string
  | JArr "json list"
  | JObj "(string \<times> json) list"

type_synonym config = "string \<rightharpoonup> json"

text \<open>\<^verbatim>\<open>d.get(key, default)\<close>\<close>

definition dict_get :: "config \<Rightarrow> string \<Rightarrow> json \<Rightarrow> json" where
  "dict_get d k dflt = (case d k of None \<Rightarrow> dflt | Some v \<Rightarrow> v)"

text \<open>\<^verbatim>\<open>a in b\<close> for two strings: \<open>a\<close> occurs in \<open>b\<close> as a contiguous run.\<close>

fun py_in_str :: "string \<Rightarrow> string \<Rightarrow> bool" where
  "py_in_str s [] = (s = [])"
| "py_in_str s (c # cs) = (prefix s (c # cs) \<or> py_in_str s cs)"

text \<open>
  \<^verbatim>\<open>name in x\<close> for a string \<open>name\<close> and a value \<open>x\<close> read from the configuration:
  membership in a list, substring of a string, key of an object, and \<^verbatim>\<open>TypeError\<close> for
  a value that is not iterable.
\<close>

fun py_in :: "string \<Rightarrow> json \<Rightarrow> py_error + bool" where
  "py_in nm (JArr xs) = Inr (JStr nm \<in> set xs)"
| "py_in nm (JStr s) = Inr (py_in_str nm s)"
| "py_in nm (JObj kvs) = Inr (nm \<in> fst ` set kvs)"
| "py_in nm JNull = Inl TypeError"
| "py_in nm (JBool b) = Inl TypeError"
| "py_in nm (JInt i) = Inl TypeError"
| "py_in nm (JFloat f) = Inl TypeError"

text \<open>
  \<^verbatim>\<open>int(x)\<close>.  For a string: surrounding whitespace is stripped, one sign is allowed,
  the digits may be grouped by single underscores, and more than 4300 digits are
  refused (the limit of CPython 3.11, \<^verbatim>\<open>sys.get_int_max_str_digits()\<close>).  Characters are the
  code points below 256; the whitespace among them is tab, line feed, vertical tab, form
  feed, carriage return, space, and the two code points 133 and 160.
\<close>

definition is_space :: "char \<Rightarrow> bool" where
  "is_space c = (of_char c \<in> {9, 10, 11, 12, 13, 32, 133, 160 :: nat})"

definition int_max_str_digits :: nat where
  "int_max_str_digits = 4300"

definition strip :: "string \<Rightarrow> string" where
  "strip s = rev (dropWhile is_space (rev (dropWhile is_space s)))"

definition digit_of :: "char \<Rightarrow> nat option" where
  "digit_of c = (let n = of_char c :: nat in if 48 \<le> n \<and> n \<le> 57 then Some (n - 48) else None)"

text \<open>
  \<open>digits acc after_digit s\<close>: \<open>acc\<close> is the value read so far and \<open>after_digit\<close> says
  whether the previous character was a digit (only then may an underscore follow, and
  only then may the string end).
\<close>

fun digits :: "nat \<Rightarrow> bool \<Rightarrow> string \<Rightarrow> nat option" where
  "digits acc after_digit [] = (if after_digit then Some acc else None)"
| "digits acc after_digit (c # cs) =
     (if c = CHR ''_'' then (if after_digit \<and> cs \<noteq> [] then digits acc False cs else None)
      else case digit_of c of
             None \<Rightarrow> None
           | Some d \<Rightarrow> digits (10 * acc + d) True cs)"

definition int_of_str :: "string \<Rightarrow> py_error + int" where
  "int_of_str s =
     (let t = strip s;
          (neg, body) = (case t of
                           c # cs \<Rightarrow> if c = CHR ''-'' then (True, cs)
                                     else if c = CHR ''+'' then (False, cs)
                                     else (False, t)
                         | [] \<Rightarrow> (False, t))
      in if int_max_str_digits < length (filter (\<lambda>c. digit_of c \<noteq> None) body)
         then Inl (IntValueError s)
         else case digits 0 False body of
                None \<Rightarrow> Inl (IntValueError s)
              | Some n \<Rightarrow> Inr (if neg then - int n else int n))"

fun py_int :: "json \<Rightarrow> py_error + int" where
  "py_int (JInt i) = Inr i"
| "py_int (JBool b) = Inr (if b then 1 else 0)"
| "py_int (JFloat (Finite r)) = Inr (if 0 \<le> r then \<lfloor>r\<rfloor> else \<lceil>r\<rceil>)"
| "py_int (JFloat PosInf) = Inl OverflowError"
| "py_int (JFloat NegInf) = Inl OverflowError"
| "py_int (JFloat NaN) = Inl (ValueError ''cannot convert float NaN to integer'')"
| "py_int (JStr s) = int_of_str s"
| "py_int JNull = Inl TypeError"
| "py_int (JArr xs) = Inl TypeError"
| "py_int (JObj kvs) = Inl TypeError"

section \<open>The Docker client\<close>

text \<open>
  An image and a container as the program reads them.  \<open>image\<close> is the result of the
  property \<^verbatim>\<open>container.image\<close>, which asks the daemon and may raise; \<open>attrs_config\<close> is
  the entry \<^verbatim>\<open>'Config'\<close> of \<^verbatim>\<open>container.attrs\<close>: absent, \<^verbatim>\<open>None\<close>, or a dictionary
  whose entry \<^verbatim>\<open>'Image'\<close> may be absent.  A container handle is a snapshot: reading the
  same property twice gives the same value.
\<close>

record image_obj =
  img_id :: string
  tags :: "string list"
  created :: "string option"

datatype config_attr = NoConfig | NullConfig | Config "string option"

record container =
  c_id :: string
  c_name :: string
  short_id :: string
  status :: string
  image :: "py_error + image_obj"
  attrs_config :: config_attr

record docker =
  containers_get :: "string \<Rightarrow> py_error + container"
  containers_list :: "py_error + container list"
  images_pull :: "string \<Rightarrow> py_error + image_obj"
  containers_run :: "string \<Rightarrow> string \<Rightarrow> py_error + unit"

text \<open>
  The configuration file as \<^verbatim>\<open>load_config\<close> meets it: not there, there but \<^verbatim>\<open>open\<close>
  raises, there but \<^verbatim>\<open>json.load\<close> raises, or holding a JSON value.
\<close>

datatype config_file = Missing | Unreadable py_error | Malformed py_error | Stored json

text \<open>
  Everything outside the process that one iteration of the worker or one request reads:
  the global \<^verbatim>\<open>client\<close> (\<^verbatim>\<open>None\<close> when the socket could not be opened), the host
  name, \<^verbatim>\<open>datetime.now().isoformat()\<close> at the check of a given container, the
  configuration file, and the two readings of \<^verbatim>\<open>time.time()\<close> of an iteration, which
  are finite floats: the one compared with the interval and the one stored after the
  loop over the containers.
\<close>

record world =
  client :: "docker option"
  hostname :: string
  datetime_now :: "string \<Rightarrow> string"
  config_file :: config_file
  time_at_gate :: rat
  time_after_loop :: rat

record check_outcome =
  update_available :: bool
  is_local :: bool
  current_id_short :: string
  new_id_short :: string
  current_created :: string
  new_created :: string
  checked_at :: string

type_synonym cache = "string \<rightharpoonup> check_outcome"

text \<open>What the program does to the outside, and the lines it logs, in order.\<close>

datatype event =
    GetContainer string          \<comment> \<open>\<^verbatim>\<open>client.containers.get(id)\<close>\<close>
  | ListContainers               \<comment> \<open>\<^verbatim>\<open>client.containers.list()\<close>\<close>
  | Pull string                  \<comment> \<open>\<^verbatim>\<open>client.images.pull(name)\<close>\<close>
  | Run string string            \<comment> \<open>\<^verbatim>\<open>client.containers.run(image, command, ...)\<close>\<close>
  | Sleep nat
  | LogLocal string
  | LogPullUpdater
  | LogUpdaterPullFailed py_error
  | LogCycleStart
  | LogAutoUpdate string
  | LogFailed string py_error
  | LogCycleFinished
  | LogLoopError py_error
  | LogCritical py_error
  | LogConfigError py_error

type_synonym 'a effect = "(py_error + 'a) \<times> cache \<times> event list"

section \<open>Configuration\<close>

definition DEFAULT_CONFIG :: config where
  "DEFAULT_CONFIG =
     [''check_mode'' \<mapsto> JStr ''manual'',
      ''check_interval'' \<mapsto> JInt 60,
      ''auto_update_mode'' \<mapsto> JStr ''off'',
      ''auto_update_containers'' \<mapsto> JArr []]"

definition UPDATER_IMAGE :: string where
  "UPDATER_IMAGE = ''containrrr/watchtower''"

text \<open>
  The body of the \<^verbatim>\<open>try\<close> in \<^verbatim>\<open>load_config\<close>: open the file, parse it, and build
  \<^verbatim>\<open>{**DEFAULT_CONFIG, **json.load(f)}\<close>, which raises \<^verbatim>\<open>TypeError\<close> when the parsed
  value is not an object.
\<close>

fun read_config :: "config_file \<Rightarrow> py_error + config" where
  "read_config Missing = Inl (OtherError ''FileNotFoundError'')"
| "read_config (Unreadable e) = Inl e"
| "read_config (Malformed e) = Inl e"
| "read_config (Stored (JObj kvs)) = Inr (DEFAULT_CONFIG ++ map_of kvs)"
| "read_config (Stored v) = Inl TypeError"

definition load_config :: "config_file \<Rightarrow> (py_error + config) \<times> event list" where
  "load_config f =
     (if f = Missing then (Inr DEFAULT_CONFIG, [])
      else case read_config f of
             Inr cfg \<Rightarrow> (Inr cfg, [])
           | Inl e \<Rightarrow> (Inr DEFAULT_CONFIG, [LogConfigError e]))"

section \<open>The image name of a container\<close>

text \<open>The body of the \<^verbatim>\<open>try\<close> in \<^verbatim>\<open>get_image_name\<close>.\<close>

definition image_name_body :: "container \<Rightarrow> py_error + string" where
  "image_name_body c =
     (case image c of
        Inl e \<Rightarrow> Inl e
      | Inr img \<Rightarrow>
          if tags img \<noteq> [] then Inr (hd (tags img))
          else case attrs_config c of
                 NullConfig \<Rightarrow> Inl AttributeError
               | NoConfig \<Rightarrow> Inr ''unknown-image''
               | Config None \<Rightarrow> Inr ''unknown-image''
               | Config (Some image_config) \<Rightarrow>
                   if image_config \<noteq> [] then Inr image_config else Inr ''unknown-image'')"

definition get_image_name :: "container \<Rightarrow> py_error + string" where
  "get_image_name c =
     (case image_name_body c of
        Inr nm \<Rightarrow> Inr nm
      | Inl e \<Rightarrow> Inr ''unknown'')"

section \<open>Checking one container\<close>

text \<open>\<^verbatim>\<open>s.split(':')[-1][:12]\<close>\<close>

definition id_short :: "string \<Rightarrow> string" where
  "id_short s = take 12 (rev (takeWhile (\<lambda>c. c \<noteq> CHR '':'') (rev s)))"

text \<open>The four local variables that the \<^verbatim>\<open>try\<close> of \<^verbatim>\<open>perform_single_check\<close> assigns.\<close>

record check_vars =
  new_id :: "string option"
  new_created_v :: "string option"
  update_available_v :: bool
  is_local_v :: bool

definition init_vars :: check_vars where
  "init_vars = \<lparr>new_id = None, new_created_v = None, update_available_v = False, is_local_v = False\<rparr>"

text \<open>
  The \<^verbatim>\<open>try\<close> block: the pull, then the three assignments.  When the pull raises, the
  variables are as they were.
\<close>

definition try_pull :: "docker \<Rightarrow> string \<Rightarrow> string \<Rightarrow> check_vars \<Rightarrow> py_error option \<times> check_vars" where
  "try_pull cl image_name current_id vs =
     (case images_pull cl image_name of
        Inl e \<Rightarrow> (Some e, vs)
      | Inr new_img \<Rightarrow>
          (None, vs\<lparr>new_id := Some (img_id new_img),
                    new_created_v := Some (case created new_img of None \<Rightarrow> ''Unknown'' | Some s \<Rightarrow> s),
                    update_available_v := (img_id new_img \<noteq> current_id)\<rparr>))"

definition build_result :: "string \<Rightarrow> string \<Rightarrow> string \<Rightarrow> check_vars \<Rightarrow> check_outcome" where
  "build_result current_id current_created_s stamp vs =
     \<lparr>update_available = update_available_v vs,
      is_local = is_local_v vs,
      current_id_short = id_short current_id,
      new_id_short = (case new_id vs of
                        None \<Rightarrow> ''n/a''
                      | Some i \<Rightarrow> if i \<noteq> [] then id_short i else ''n/a''),
      current_created = current_created_s,
      new_created = (case new_created_v vs of
                       None \<Rightarrow> ''n/a''
                     | Some s \<Rightarrow> if s \<noteq> [] then s else ''n/a''),
      checked_at = stamp\<rparr>"

definition perform_single_check :: "world \<Rightarrow> string \<Rightarrow> cache \<Rightarrow> check_outcome effect" where
  "perform_single_check w container_id cache =
     (case client w of
        None \<Rightarrow> (Inl AttributeError, cache, [])
      | Some cl \<Rightarrow>
     (case containers_get cl container_id of
        Inl e \<Rightarrow> (Inl e, cache, [GetContainer container_id])
      | Inr c \<Rightarrow>
     (case image c of
        Inl e \<Rightarrow> (Inl e, cache, [GetContainer container_id])
      | Inr current_img \<Rightarrow>
     (case get_image_name c of
        Inl e \<Rightarrow> (Inl e, cache, [GetContainer container_id])
      | Inr image_name \<Rightarrow>
          if image_name = [] \<or> image_name = ''unknown-image''
          then (Inl (ValueError ''Could not determine image name''), cache,
                [GetContainer container_id])
          else
            let current_id = img_id current_img;
                current_created_s = (case created current_img of None \<Rightarrow> ''Unknown'' | Some s \<Rightarrow> s)
            in case try_pull cl image_name current_id init_vars of
                 (None, vs) \<Rightarrow>
                   let result = build_result current_id current_created_s
                                  (datetime_now w container_id) vs
                   in (Inr result, cache(container_id \<mapsto> result),
                       [GetContainer container_id, Pull image_name])
               | (Some e, vs) \<Rightarrow>
                   if e = NotFound \<or> e = APIError
                   then let result = build_result current_id current_created_s
                                       (datetime_now w container_id) (vs\<lparr>is_local_v := True\<rparr>)
                        in (Inr result, cache(container_id \<mapsto> result),
                            [GetContainer container_id, Pull image_name, LogLocal image_name])
                   else (Inl e, cache, [GetContainer container_id, Pull image_name])))))"

section \<open>Starting the updater\<close>

text \<open>
  \<^verbatim>\<open>trigger_updater_engine\<close>: the pull of the updater's image is guarded (a failure is
  logged and ignored), the run is not.  With \<^verbatim>\<open>client = None\<close> both calls raise
  \<^verbatim>\<open>AttributeError\<close>.
\<close>

definition trigger_updater_engine :: "world \<Rightarrow> string \<Rightarrow> (py_error + unit) \<times> event list" where
  "trigger_updater_engine w container_name =
     (case client w of
        None \<Rightarrow> (Inl AttributeError, [LogPullUpdater, LogUpdaterPullFailed AttributeError])
      | Some cl \<Rightarrow>
          let ev = [LogPullUpdater, Pull UPDATER_IMAGE] @
                   (case images_pull cl UPDATER_IMAGE of
                      Inl e \<Rightarrow> [LogUpdaterPullFailed e]
                    | Inr new_img \<Rightarrow> []);
              command = ''--run-once '' @ container_name
          in case containers_run cl UPDATER_IMAGE command of
               Inl e \<Rightarrow> (Inl e, ev @ [Run UPDATER_IMAGE command])
             | Inr u \<Rightarrow> (Inr (), ev @ [Run UPDATER_IMAGE command]))"

section \<open>The background worker\<close>

text \<open>
  The value of the variable \<^verbatim>\<open>should_update\<close> of \<^verbatim>\<open>background_worker\<close>, for the two
  values read from the configuration and the container's name.  The membership test is
  evaluated only in mode \<^verbatim>\<open>'selected'\<close> and may raise.
\<close>

definition should_update :: "json \<Rightarrow> json \<Rightarrow> string \<Rightarrow> py_error + bool" where
  "should_update auto_up_mode auto_up_list nm =
     (if auto_up_mode = JStr ''all'' then Inr True
      else if auto_up_mode = JStr ''selected'' then py_in nm auto_up_list
      else Inr False)"

text \<open>The body of the inner \<^verbatim>\<open>try\<close>: check the container, then update it if allowed.\<close>

definition check_and_update :: "world \<Rightarrow> json \<Rightarrow> json \<Rightarrow> container \<Rightarrow> cache \<Rightarrow> unit effect" where
  "check_and_update w auto_up_mode auto_up_list c cache =
     (case perform_single_check w (c_id c) cache of
        (Inl e, cache1, ev) \<Rightarrow> (Inl e, cache1, ev)
      | (Inr result, cache1, ev) \<Rightarrow>
          if update_available result \<and> \<not> is_local result
          then (case should_update auto_up_mode auto_up_list (c_name c) of
                  Inl e \<Rightarrow> (Inl e, cache1, ev)
                | Inr False \<Rightarrow> (Inr (), cache1, ev)
                | Inr True \<Rightarrow>
                    (case trigger_updater_engine w (c_name c) of
                       (Inl e, ev2) \<Rightarrow> (Inl e, cache1, ev @ [LogAutoUpdate (c_name c)] @ ev2)
                     | (Inr u, ev2) \<Rightarrow>
                         (Inr (), cache1(c_id c := None),
                          ev @ [LogAutoUpdate (c_name c)] @ ev2)))
          else (Inr (), cache1, ev))"

text \<open>
  One pass of the \<^verbatim>\<open>for\<close> loop: the two \<^verbatim>\<open>continue\<close> tests, which stand outside the
  inner \<^verbatim>\<open>try\<close>, then the guarded body with its handler.
\<close>

definition process_container :: "world \<Rightarrow> json \<Rightarrow> json \<Rightarrow> container \<Rightarrow> cache \<Rightarrow> unit effect" where
  "process_container w auto_up_mode auto_up_list c cache =
     (if py_in_str (short_id c) (hostname w) then (Inr (), cache, [])
      else case get_image_name c of
             Inl e \<Rightarrow> (Inl e, cache, [])
           | Inr image_name \<Rightarrow>
               if py_in_str ''watchtower'' image_name then (Inr (), cache, [])
               else (case check_and_update w auto_up_mode auto_up_list c cache of
                       (Inl e, cache1, ev) \<Rightarrow> (Inr (), cache1, ev @ [LogFailed (c_name c) e])
                     | (Inr u, cache1, ev) \<Rightarrow> (Inr (), cache1, ev)))"

fun for_containers :: "world \<Rightarrow> json \<Rightarrow> json \<Rightarrow> container list \<Rightarrow> cache \<Rightarrow> unit effect" where
  "for_containers w auto_up_mode auto_up_list [] cache = (Inr (), cache, [])"
| "for_containers w auto_up_mode auto_up_list (c # cs) cache =
     (case process_container w auto_up_mode auto_up_list c cache of
        (Inl e, cache1, ev) \<Rightarrow> (Inl e, cache1, ev)
      | (Inr u, cache1, ev) \<Rightarrow>
          (case for_containers w auto_up_mode auto_up_list cs cache1 of
             (r, cache2, ev2) \<Rightarrow> (r, cache2, ev @ ev2)))"

text \<open>
  The body of the middle \<^verbatim>\<open>try\<close>: list the containers, loop over them, and reach the
  line that stores the time only when nothing was raised.
\<close>

definition check_cycle :: "world \<Rightarrow> config \<Rightarrow> cache \<Rightarrow> unit effect" where
  "check_cycle w config cache =
     (case client w of
        None \<Rightarrow> (Inl AttributeError, cache, [])
      | Some cl \<Rightarrow>
          (case containers_list cl of
             Inl e \<Rightarrow> (Inl e, cache, [ListContainers])
           | Inr containers \<Rightarrow>
               let auto_up_mode = dict_get config ''auto_update_mode'' (JStr ''off'');
                   auto_up_list = dict_get config ''auto_update_containers'' (JArr [])
               in case for_containers w auto_up_mode auto_up_list containers cache of
                    (Inl e, cache1, ev) \<Rightarrow> (Inl e, cache1, ListContainers # ev)
                  | (Inr u, cache1, ev) \<Rightarrow>
                      (Inr (), cache1, ListContainers # ev @ [LogCycleFinished])))"

record worker_state =
  last_check_time :: rat
  server_cache :: cache

definition initial_state :: worker_state where
  "initial_state = \<lparr>last_check_time = 0, server_cache = Map.empty\<rparr>"

text \<open>The body of the outer \<^verbatim>\<open>try\<close>, up to the \<^verbatim>\<open>time.sleep(10)\<close>.\<close>

definition iteration_body :: "world \<Rightarrow> worker_state \<Rightarrow> (py_error + unit) \<times> worker_state \<times> event list" where
  "iteration_body w st =
     (case load_config (config_file w) of
        (Inl e, ev0) \<Rightarrow> (Inl e, st, ev0)
      | (Inr config, ev0) \<Rightarrow>
          let mode = dict_get config ''check_mode'' (JStr ''manual'')
          in if mode = JStr ''background''
             then (case py_int (dict_get config ''check_interval'' (JInt 60)) of
                     Inl e \<Rightarrow> (Inl e, st, ev0)
                   | Inr interval_minutes \<Rightarrow>
                       let interval_seconds = interval_minutes * 60
                       in if float_ge_int (float_sub (time_at_gate w) (last_check_time st))
                               interval_seconds
                          then (case check_cycle w config (server_cache st) of
                                  (Inl e, cache1, ev) \<Rightarrow>
                                    (Inr (), st\<lparr>server_cache := cache1\<rparr>,
                                     ev0 @ [LogCycleStart] @ ev @ [LogLoopError e])
                                | (Inr u, cache1, ev) \<Rightarrow>
                                    (Inr (),
                                     \<lparr>last_check_time = time_after_loop w, server_cache = cache1\<rparr>,
                                     ev0 @ [LogCycleStart] @ ev))
                          else (Inr (), st, ev0))
             else (Inr (), st, ev0))"

text \<open>One pass of \<^verbatim>\<open>while True\<close>.\<close>

definition worker_iteration :: "world \<Rightarrow> worker_state \<Rightarrow> worker_state \<times> event list" where
  "worker_iteration w st =
     (case iteration_body w st of
        (Inr u, st1, ev) \<Rightarrow> (st1, ev @ [Sleep 10])
      | (Inl e, st1, ev) \<Rightarrow> (st1, ev @ [LogCritical e, Sleep 60]))"

text \<open>
  \<^verbatim>\<open>background_worker\<close> never returns; its first \<open>n\<close> passes are run against the list of
  the \<open>n\<close> worlds they meet, starting from \<open>initial_state\<close> in the program.
\<close>

fun background_worker :: "world list \<Rightarrow> worker_state \<Rightarrow> worker_state \<times> event list" where
  "background_worker [] st = (st, [])"
| "background_worker (w # ws) st =
     (case worker_iteration w st of
        (st1, ev) \<Rightarrow> (case background_worker ws st1 of (st2, ev2) \<Rightarrow> (st2, ev @ ev2)))"

section \<open>The routes\<close>

datatype error_body = Message string | Exception py_error

datatype 'a response = Ok200 'a | Error500 error_body

record container_data =
  cd_id :: string
  cd_name :: string
  cd_image :: string
  cd_status :: string
  cd_short_id :: string
  cached_result :: "check_outcome option"

text \<open>
  The body of the \<^verbatim>\<open>try\<close> inside the loop of \<^verbatim>\<open>list_containers\<close>: \<open>None\<close> is
  \<^verbatim>\<open>continue\<close>.
\<close>

definition container_entry :: "world \<Rightarrow> cache \<Rightarrow> container \<Rightarrow> py_error + container_data option" where
  "container_entry w cache c =
     (if py_in_str (short_id c) (hostname w) then Inr None
      else case get_image_name c of
             Inl e \<Rightarrow> Inl e
           | Inr image_name \<Rightarrow>
               if py_in_str ''watchtower'' image_name then Inr None
               else Inr (Some \<lparr>cd_id = c_id c, cd_name = c_name c, cd_image = image_name,
                                cd_status = status c, cd_short_id = short_id c,
                                cached_result = cache (c_id c)\<rparr>))"

fun collect_containers :: "world \<Rightarrow> cache \<Rightarrow> container list \<Rightarrow> container_data list" where
  "collect_containers w cache [] = []"
| "collect_containers w cache (c # cs) =
     (case container_entry w cache c of
        Inr (Some d) \<Rightarrow> d # collect_containers w cache cs
      | Inr None \<Rightarrow> collect_containers w cache cs
      | Inl e \<Rightarrow> collect_containers w cache cs)"

definition list_containers :: "world \<Rightarrow> cache \<Rightarrow> container_data list response" where
  "list_containers w cache =
     (case client w of
        None \<Rightarrow> Error500 (Message ''Docker socket not connected.'')
      | Some cl \<Rightarrow>
          (case containers_list cl of
             Inl e \<Rightarrow> Error500 (Exception e)
           | Inr all_containers \<Rightarrow> Ok200 (collect_containers w cache all_containers)))"

definition check_update :: "world \<Rightarrow> string \<Rightarrow> cache \<Rightarrow> check_outcome response \<times> cache \<times> event list" where
  "check_update w container_id cache =
     (case client w of
        None \<Rightarrow> (Error500 (Message ''No docker connection''), cache, [])
      | Some cl \<Rightarrow>
          (case perform_single_check w container_id cache of
             (Inr result, cache1, ev) \<Rightarrow> (Ok200 result, cache1, ev)
           | (Inl e, cache1, ev) \<Rightarrow> (Error500 (Exception e), cache1, ev)))"

definition run_update :: "world \<Rightarrow> string \<Rightarrow> cache \<Rightarrow> string response \<times> cache \<times> event list" where
  "run_update w container_name cache =
     (case client w of
        None \<Rightarrow> (Error500 (Message ''No docker connection''), cache, [])
      | Some cl \<Rightarrow>
          (case trigger_updater_engine w container_name of
             (Inr u, ev) \<Rightarrow> (Ok200 (''Update triggered for '' @ container_name), cache, ev)
           | (Inl e, ev) \<Rightarrow> (Error500 (Exception e), cache, ev)))"

section \<open>Reading a trace\<close>

text \<open>
  A container is left out by the loops when its short id occurs in the host name or its
  image name contains \<^verbatim>\<open>watchtower\<close>.
\<close>

definition excluded :: "world \<Rightarrow> container \<Rightarrow> bool" where
  "excluded w c =
     (py_in_str (short_id c) (hostname w)
      \<or> (case get_image_name c of Inr nm \<Rightarrow> py_in_str ''watchtower'' nm | Inl e \<Rightarrow> False))"

text \<open>
  The configuration that an iteration of the worker works with, and the three values it
  takes from it.
\<close>

definition current_config :: "world \<Rightarrow> config" where
  "current_config w =
     (case fst (load_config (config_file w)) of Inr cfg \<Rightarrow> cfg | Inl e \<Rightarrow> DEFAULT_CONFIG)"

definition check_mode :: "world \<Rightarrow> json" where
  "check_mode w = dict_get (current_config w) ''check_mode'' (JStr ''manual'')"

definition check_interval :: "world \<Rightarrow> py_error + int" where
  "check_interval w = py_int (dict_get (current_config w) ''check_interval'' (JInt 60))"

text \<open>The ids that \<^verbatim>\<open>perform_single_check\<close> asked the daemon for, in order.\<close>

fun checked_ids :: "event list \<Rightarrow> string list" where
  "checked_ids [] = []"
| "checked_ids (GetContainer i # ev) = i # checked_ids ev"
| "checked_ids (e # ev) = checked_ids ev"

text \<open>The updater was started for the container of this name.\<close>

definition dispatched :: "string \<Rightarrow> event list \<Rightarrow> bool" where
  "dispatched nm ev = (Run UPDATER_IMAGE (''--run-once '' @ nm) \<in> set ev)"

text \<open>The events of the worker's own frame, which the processing of a container never emits.\<close>

fun frame_event :: "event \<Rightarrow> bool" where
  "frame_event ListContainers = True"
| "frame_event (Sleep n) = True"
| "frame_event LogCycleStart = True"
| "frame_event LogCycleFinished = True"
| "frame_event (LogLoopError e) = True"
| "frame_event (LogCritical e) = True"
| "frame_event (LogConfigError e) = True"
| "frame_event e = False"

section \<open>A small host\<close>

text \<open>
  Six containers: the application's own (its short id is part of the host name), the
  updater, one built locally and never pushed, one whose registry times out, one with a
  newer image upstream, and one whose \<^verbatim>\<open>attrs\<close> carry \<^verbatim>\<open>'Config': None\<close> and whose image
  has no tag.
\<close>

definition ex_img_old :: image_obj where
  "ex_img_old = \<lparr>img_id = ''sha256:1111aaaa2222bbbb'', tags = [''nginx:latest''],
                 created = Some ''2024-01-01''\<rparr>"

definition ex_img_new :: image_obj where
  "ex_img_new = \<lparr>img_id = ''sha256:3333cccc4444dddd'', tags = [''nginx:latest''],
                 created = Some ''2024-06-01''\<rparr>"

definition ex_img_api :: image_obj where
  "ex_img_api = \<lparr>img_id = ''sha256:5555eeee'', tags = [''local/api:dev''], created = None\<rparr>"

definition ex_img_db :: image_obj where
  "ex_img_db = \<lparr>img_id = ''sha256:6666ffff'', tags = [''postgres:16''], created = Some ''2023-12-24''\<rparr>"

definition ex_img_wt :: image_obj where
  "ex_img_wt = \<lparr>img_id = ''sha256:7777'', tags = [''containrrr/watchtower:latest''],
                created = None\<rparr>"

definition ex_img_untagged :: image_obj where
  "ex_img_untagged = \<lparr>img_id = ''sha256:8888'', tags = [], created = None\<rparr>"

definition ex_self :: container where
  "ex_self = \<lparr>c_id = ''id-self'', c_name = ''commander'', short_id = ''self99'',
              status = ''running'', image = Inr ex_img_old, attrs_config = NoConfig\<rparr>"

definition ex_wt :: container where
  "ex_wt = \<lparr>c_id = ''id-wt'', c_name = ''updater'', short_id = ''wt01'',
            status = ''running'', image = Inr ex_img_wt, attrs_config = NoConfig\<rparr>"

definition ex_api :: container where
  "ex_api = \<lparr>c_id = ''id-api'', c_name = ''api'', short_id = ''api01'',
             status = ''running'', image = Inr ex_img_api, attrs_config = NoConfig\<rparr>"

definition ex_db :: container where
  "ex_db = \<lparr>c_id = ''id-db'', c_name = ''db'', short_id = ''db01'',
            status = ''running'', image = Inr ex_img_db, attrs_config = NoConfig\<rparr>"

definition ex_web :: container where
  "ex_web = \<lparr>c_id = ''id-web'', c_name = ''web'', short_id = ''web01'',
             status = ''running'', image = Inr ex_img_old, attrs_config = NoConfig\<rparr>"

definition ex_odd :: container where
  "ex_odd = \<lparr>c_id = ''id-odd'', c_name = ''odd'', short_id = ''odd01'',
             status = ''running'', image = Inr ex_img_untagged, attrs_config = NullConfig\<rparr>"

definition ex_docker :: docker where
  "ex_docker =
     \<lparr>containers_get = (\<lambda>i. if i = ''id-web'' then Inr ex_web
                            else if i = ''id-api'' then Inr ex_api
                            else if i = ''id-db'' then Inr ex_db
                            else if i = ''id-odd'' then Inr ex_odd
                            else Inl NotFound),
      containers_list = Inr [ex_self, ex_wt, ex_db, ex_web],
      images_pull = (\<lambda>n. if n = ''nginx:latest'' then Inr ex_img_new
                         else if n = ''postgres:16'' then Inl (OtherError ''timeout'')
                         else Inl NotFound),
      containers_run = (\<lambda>i c. if c = ''--run-once web'' then Inr () else Inl APIError)\<rparr>"

definition ex_config :: json where
  "ex_config = JObj [(''check_mode'', JStr ''background''),
                     (''check_interval'', JInt 1),
                     (''auto_update_mode'', JStr ''selected''),
                     (''auto_update_containers'', JArr [JStr ''web''])]"

definition ex_world :: world where
  "ex_world = \<lparr>client = Some ex_docker, hostname = ''self99-host'',
               datetime_now = (\<lambda>i. ''2024-06-02T10:00:00''),
               config_file = Stored ex_config,
               time_at_gate = 1000, time_after_loop = 1005\<rparr>"

definition ex_api_outcome :: check_outcome where
  "ex_api_outcome = \<lparr>update_available = False, is_local = True,
                     current_id_short = ''5555eeee'', new_id_short = ''n/a'',
                     current_created = ''Unknown'', new_created = ''n/a'',
                     checked_at = ''2024-06-02T10:00:00''\<rparr>"

definition ex_web_outcome :: check_outcome where
  "ex_web_outcome = \<lparr>update_available = True, is_local = False,
                     current_id_short = ''1111aaaa2222'', new_id_short = ''3333cccc4444'',
                     current_created = ''2024-01-01'', new_created = ''2024-06-01'',
                     checked_at = ''2024-06-02T10:00:00''\<rparr>"

section \<open>Facts about the example host\<close>

lemmas ex_defs = ex_img_old_def ex_img_new_def ex_img_api_def ex_img_db_def ex_img_wt_def
  ex_img_untagged_def ex_self_def ex_wt_def ex_api_def ex_db_def ex_web_def ex_odd_def
  ex_docker_def ex_config_def ex_world_def ex_api_outcome_def ex_web_outcome_def

lemmas check_defs = perform_single_check_def get_image_name_def image_name_body_def
  try_pull_def init_vars_def build_result_def id_short_def Let_def

lemmas float_defs = float_sub_def float64_def floor_log2_def round_half_even_def pow2_def
  bit_length.simps Let_def

lemma ex_elapsed:
  "float_sub 1000 0 = Finite 1000" "float_sub 1064 1005 = Finite 59"
  "float_sub 1065 1005 = Finite 60"
  by (simp_all add: float_defs)

lemma ex_check_api:
  "perform_single_check ex_world ''id-api'' cache =
     (Inr ex_api_outcome, cache(''id-api'' \<mapsto> ex_api_outcome),
      [GetContainer ''id-api'', Pull ''local/api:dev'', LogLocal ''local/api:dev''])"
  by (simp add: check_defs ex_defs)

lemma ex_check_web:
  "perform_single_check ex_world ''id-web'' cache =
     (Inr ex_web_outcome, cache(''id-web'' \<mapsto> ex_web_outcome),
      [GetContainer ''id-web'', Pull ''nginx:latest''])"
  by (simp add: check_defs ex_defs)

lemma ex_check_db:
  "perform_single_check ex_world ''id-db'' cache =
     (Inl (OtherError ''timeout''), cache, [GetContainer ''id-db'', Pull ''postgres:16''])"
  by (simp add: check_defs ex_defs)

section \<open>The outcome of a check\<close>

lemma try_pull_None: "try_pull cl nm cur init_vars = (None, vs) \<Longrightarrow> \<not> is_local_v vs"
  by (auto simp: try_pull_def init_vars_def split: sum.splits)

lemma try_pull_Some: "try_pull cl nm cur init_vars = (Some e, vs) \<Longrightarrow> \<not> update_available_v vs"
  by (auto simp: try_pull_def init_vars_def split: sum.splits)

text \<open>
  C1.  Whatever \<^verbatim>\<open>perform_single_check\<close> returns, an outcome with \<open>is_local\<close> set has
  \<open>update_available\<close> clear; the outcome returned is the one stored in the cache under
  the container's id, and a check that raises leaves the cache as it was.  So every
  outcome the check returns or stores satisfies the invariant.
\<close>

theorem check_outcome_local_excludes_update:
  assumes "perform_single_check w cid cache = (r, cache', ev)"
  shows "case r of
           Inr res \<Rightarrow> (is_local res \<longrightarrow> \<not> update_available res) \<and> cache' = cache(cid \<mapsto> res)
         | Inl e \<Rightarrow> cache' = cache"
  using assms
  by (auto simp: perform_single_check_def build_result_def Let_def
           dest: try_pull_None try_pull_Some
           split: option.splits sum.splits if_splits prod.splits)

theorem check_outcome_local_excludes_update_witness:
  "perform_single_check ex_world ''id-api'' Map.empty =
     (Inr ex_api_outcome, [''id-api'' \<mapsto> ex_api_outcome],
      [GetContainer ''id-api'', Pull ''local/api:dev'', LogLocal ''local/api:dev''])
   \<and> is_local ex_api_outcome \<and> \<not> update_available ex_api_outcome"
  using check_outcome_local_excludes_update [OF ex_check_api [of Map.empty]]
    ex_check_api [of Map.empty]
  by (simp add: ex_api_outcome_def)

text \<open>
  C2.  When the check reaches the pull (the client is there, the container is found, its
  image can be read and its name is resolved) and the pull raises \<^verbatim>\<open>NotFound\<close> or
  \<^verbatim>\<open>APIError\<close>, the check returns an outcome with \<open>is_local\<close> set and
  \<open>update_available\<close> clear; when the pull raises anything else, the check raises it.
\<close>

theorem check_pull_failure_classified:
  assumes "client w = Some cl" and "containers_get cl cid = Inr c" and "image c = Inr img"
    and "get_image_name c = Inr nm" and "nm \<noteq> []" and "nm \<noteq> ''unknown-image''"
    and "images_pull cl nm = Inl e"
  shows "(e = NotFound \<or> e = APIError \<longrightarrow>
            (\<exists>res. fst (perform_single_check w cid cache) = Inr res
                   \<and> is_local res \<and> \<not> update_available res))
       \<and> (e \<noteq> NotFound \<and> e \<noteq> APIError \<longrightarrow> fst (perform_single_check w cid cache) = Inl e)"
  using assms
  by (auto simp: perform_single_check_def build_result_def Let_def init_vars_def try_pull_def)

theorem check_pull_failure_classified_witness:
  "client ex_world = Some ex_docker \<and> containers_get ex_docker ''id-api'' = Inr ex_api
   \<and> image ex_api = Inr ex_img_api \<and> get_image_name ex_api = Inr ''local/api:dev''
   \<and> images_pull ex_docker ''local/api:dev'' = Inl NotFound
   \<and> (\<exists>res. fst (perform_single_check ex_world ''id-api'' Map.empty) = Inr res
            \<and> is_local res \<and> \<not> update_available res)
   \<and> containers_get ex_docker ''id-db'' = Inr ex_db
   \<and> images_pull ex_docker ''postgres:16'' = Inl (OtherError ''timeout'')
   \<and> fst (perform_single_check ex_world ''id-db'' Map.empty) = Inl (OtherError ''timeout'')"
proof -
  have h: "client ex_world = Some ex_docker" "containers_get ex_docker ''id-api'' = Inr ex_api"
    "image ex_api = Inr ex_img_api" "get_image_name ex_api = Inr ''local/api:dev''"
    "''local/api:dev'' \<noteq> []" "''local/api:dev'' \<noteq> ''unknown-image''"
    "images_pull ex_docker ''local/api:dev'' = Inl NotFound"
    by (simp_all add: ex_defs get_image_name_def image_name_body_def)
  have k: "client ex_world = Some ex_docker" "containers_get ex_docker ''id-db'' = Inr ex_db"
    "image ex_db = Inr ex_img_db" "get_image_name ex_db = Inr ''postgres:16''"
    "''postgres:16'' \<noteq> []" "''postgres:16'' \<noteq> ''unknown-image''"
    "images_pull ex_docker ''postgres:16'' = Inl (OtherError ''timeout'')"
    by (simp_all add: ex_defs get_image_name_def image_name_body_def)
  from check_pull_failure_classified [OF h, of Map.empty]
    check_pull_failure_classified [OF k, of Map.empty] h k
  show ?thesis by simp
qed

section \<open>What each step emits\<close>

lemma checked_ids_append: "checked_ids (xs @ ys) = checked_ids xs @ checked_ids ys"
  by (induction xs rule: checked_ids.induct) simp_all

lemma dispatched_Nil: "\<not> dispatched nm []"
  by (simp add: dispatched_def)

lemma dispatched_Cons:
  "dispatched nm (e # ev) = (e = Run UPDATER_IMAGE (''--run-once '' @ nm) \<or> dispatched nm ev)"
  by (auto simp: dispatched_def)

lemma dispatched_append: "dispatched nm (xs @ ys) = (dispatched nm xs \<or> dispatched nm ys)"
  by (auto simp: dispatched_def)

lemmas dispatched_simps = dispatched_Nil dispatched_Cons dispatched_append

lemma check_events:
  assumes "perform_single_check w cid cache = (r, cache', ev)"
  shows "(\<forall>e\<in>set ev. \<not> frame_event e) \<and> (\<forall>a b. Run a b \<notin> set ev)
       \<and> checked_ids ev = (if client w = None then [] else [cid])
       \<and> (\<forall>res. r = Inr res \<longrightarrow> client w \<noteq> None)"
  using assms
  by (auto simp: perform_single_check_def Let_def
           split: option.splits sum.splits if_splits prod.splits)

lemma trigger_events:
  assumes "trigger_updater_engine w nm = (r, ev)"
  shows "(\<forall>e\<in>set ev. \<not> frame_event e) \<and> checked_ids ev = []
       \<and> (client w \<noteq> None \<longrightarrow> dispatched nm ev)
       \<and> (\<forall>a b. Run a b \<in> set ev \<longrightarrow> a = UPDATER_IMAGE \<and> b = ''--run-once '' @ nm)"
  using assms
  by (auto simp: trigger_updater_engine_def dispatched_def Let_def
           split: option.splits sum.splits)

section \<open>The decision to update\<close>

text \<open>
  C3.  With a list as allow-list, the updater is started for a container in the guarded
  body of the loop exactly when the check returned an outcome that is not local and
  has an update available, and the mode is \<^verbatim>\<open>'all'\<close>, or the mode is \<^verbatim>\<open>'selected'\<close> and
  the container's name is an element of the list.  In every other case, a failed check
  included, it is not started.
\<close>

theorem auto_update_decision:
  "dispatched (c_name c) (snd (snd (check_and_update w mode (JArr allow) c cache)))
   \<longleftrightarrow> (\<exists>res. fst (perform_single_check w (c_id c) cache) = Inr res
            \<and> \<not> is_local res \<and> update_available res
            \<and> (mode = JStr ''all'' \<or> (mode = JStr ''selected'' \<and> JStr (c_name c) \<in> set allow)))"
proof (cases "perform_single_check w (c_id c) cache")
  case (fields r cache1 ev)
  note ce = check_events [OF fields]
  have norun: "\<not> dispatched (c_name c) ev"
    using ce by (simp add: dispatched_def)
  show ?thesis
  proof (cases r)
    case (Inl e)
    with fields norun show ?thesis by (simp add: check_and_update_def)
  next
    case (Inr res)
    with ce have cl: "client w \<noteq> None" by simp
    obtain r2 ev2 where t: "trigger_updater_engine w (c_name c) = (r2, ev2)"
      by (cases "trigger_updater_engine w (c_name c)")
    from trigger_events [OF t] cl have d: "dispatched (c_name c) ev2" by simp
    from fields Inr norun t d show ?thesis
      by (cases r2)
        (auto simp: check_and_update_def should_update_def dispatched_simps split: bool.splits)
  qed
qed

theorem auto_update_decision_witness:
  "dispatched ''web'' (snd (snd (check_and_update ex_world (JStr ''selected'') (JArr [JStr ''web''])
                                   ex_web Map.empty)))
   \<and> \<not> dispatched ''api'' (snd (snd (check_and_update ex_world (JStr ''selected'')
                                         (JArr [JStr ''web'']) ex_api Map.empty)))
   \<and> \<not> dispatched ''api'' (snd (snd (check_and_update ex_world (JStr ''all'')
                                         (JArr [JStr ''api'']) ex_api Map.empty)))
   \<and> \<not> dispatched ''web'' (snd (snd (check_and_update ex_world (JStr ''off'')
                                         (JArr [JStr ''web'']) ex_web Map.empty)))"
proof -
  have n: "c_name ex_web = ''web''" "c_id ex_web = ''id-web''"
    "c_name ex_api = ''api''" "c_id ex_api = ''id-api''"
    by (simp_all add: ex_web_def ex_api_def)
  have o: "\<not> is_local ex_web_outcome" "update_available ex_web_outcome"
    "is_local ex_api_outcome"
    by (simp_all add: ex_web_outcome_def ex_api_outcome_def)
  show ?thesis
    using auto_update_decision [of ex_web ex_world "JStr ''selected''" "[JStr ''web'']" Map.empty]
      auto_update_decision [of ex_api ex_world "JStr ''selected''" "[JStr ''web'']" Map.empty]
      auto_update_decision [of ex_api ex_world "JStr ''all''" "[JStr ''api'']" Map.empty]
      auto_update_decision [of ex_web ex_world "JStr ''off''" "[JStr ''web'']" Map.empty]
    by (simp add: n o ex_check_web ex_check_api)
qed

section \<open>The two markers of an unknown image\<close>

text \<open>
  \<^verbatim>\<open>get_image_name\<close> always returns: whatever its body raises is replaced by the string
  \<^verbatim>\<open>"unknown"\<close>.  The check rejects the other marker, \<^verbatim>\<open>"unknown-image"\<close>, before it
  touches the registry.
\<close>

lemma get_image_name_total: "\<exists>nm. get_image_name c = Inr nm"
  by (simp add: get_image_name_def split: sum.split)

lemma get_image_name_failure:
  "image_name_body c = Inl e \<Longrightarrow> get_image_name c = Inr ''unknown''"
  by (simp add: get_image_name_def)

lemma unknown_image_rejected:
  assumes "client w = Some cl" and "containers_get cl cid = Inr c" and "image c = Inr img"
    and "get_image_name c = Inr ''unknown-image''"
  shows "perform_single_check w cid cache =
           (Inl (ValueError ''Could not determine image name''), cache, [GetContainer cid])"
  using assms by (simp add: perform_single_check_def)

text \<open>
  C4.  The container \<open>ex_odd\<close> has an image without tags and \<^verbatim>\<open>'Config': None\<close> in its
  attributes, so the body of \<^verbatim>\<open>get_image_name\<close> raises and the name is \<^verbatim>\<open>"unknown"\<close>.
  The check does not reject that marker: it pulls the image \<^verbatim>\<open>unknown\<close>, the registry
  answers not-found, and the check returns an outcome that calls the image local.
\<close>

theorem unknown_marker_is_pulled:
  "get_image_name ex_odd = Inr ''unknown''
   \<and> snd (snd (perform_single_check ex_world ''id-odd'' Map.empty)) =
       [GetContainer ''id-odd'', Pull ''unknown'', LogLocal ''unknown'']
   \<and> fst (perform_single_check ex_world ''id-odd'' Map.empty) =
       Inr \<lparr>update_available = False, is_local = True, current_id_short = ''8888'',
            new_id_short = ''n/a'', current_created = ''Unknown'', new_created = ''n/a'',
            checked_at = ''2024-06-02T10:00:00''\<rparr>"
  by (simp add: check_defs ex_defs)

section \<open>The cache after an update\<close>

text \<open>
  In the worker, a started updater removes the container's entry, and a failure of the
  guarded body leaves the cache as the check left it.  The route \<^verbatim>\<open>run_update\<close> never
  changes the cache.
\<close>

lemma cycle_dispatch_evicts:
  assumes "check_and_update w m l c cache = (r, cache', ev)"
  shows "(r = Inr () \<and> dispatched (c_name c) ev \<longrightarrow> cache' (c_id c) = None)
       \<and> (\<forall>e. r = Inl e \<longrightarrow> cache' = fst (snd (perform_single_check w (c_id c) cache)))"
proof (cases "perform_single_check w (c_id c) cache")
  case (fields r1 cache1 ev1)
  from check_events [OF fields] have "\<not> dispatched (c_name c) ev1"
    by (simp add: dispatched_def)
  with fields assms show ?thesis
    by (auto simp: check_and_update_def dispatched_simps
             split: sum.splits if_splits bool.splits prod.splits)
qed

lemma run_update_cache: "fst (snd (run_update w nm cache)) = cache"
  by (simp add: run_update_def split: option.split sum.split prod.split)

text \<open>
  C5.  The cache holds the outcome of an earlier check of the container \<^verbatim>\<open>web\<close>.  The
  route \<^verbatim>\<open>run_update\<close> starts the updater for \<^verbatim>\<open>web\<close> and answers with success, and the
  entry is still in the cache.
\<close>

theorem run_update_keeps_cache_entry:
  "fst (run_update ex_world ''web'' [''id-web'' \<mapsto> ex_web_outcome])
     = Ok200 ''Update triggered for web''
   \<and> dispatched ''web'' (snd (snd (run_update ex_world ''web'' [''id-web'' \<mapsto> ex_web_outcome])))
   \<and> fst (snd (run_update ex_world ''web'' [''id-web'' \<mapsto> ex_web_outcome])) ''id-web''
       = Some ex_web_outcome"
  by (simp add: run_update_def trigger_updater_engine_def dispatched_def UPDATER_IMAGE_def
        ex_world_def ex_docker_def Let_def)

section \<open>The loop over the containers and the iteration of the worker\<close>

lemma load_config_current: "\<exists>ev. load_config (config_file w) = (Inr (current_config w), ev)"
  by (auto simp: load_config_def current_config_def split: sum.splits)

lemma check_any_cache:
  "fst (perform_single_check w cid cache) = fst (perform_single_check w cid cache2)"
  by (auto simp: perform_single_check_def Let_def
           split: option.splits sum.splits if_splits prod.splits)

lemma check_and_update_any_cache:
  "fst (check_and_update w m l c cache) = fst (check_and_update w m l c cache2)"
proof -
  obtain r1 cache1 ev1 where a: "perform_single_check w (c_id c) cache = (r1, cache1, ev1)"
    by (cases "perform_single_check w (c_id c) cache")
  obtain r2 cache2' ev2 where b: "perform_single_check w (c_id c) cache2 = (r2, cache2', ev2)"
    by (cases "perform_single_check w (c_id c) cache2")
  from a b check_any_cache [of w "c_id c" cache cache2] have "r1 = r2" by simp
  with a b show ?thesis
    by (auto simp: check_and_update_def split: sum.splits if_splits bool.splits prod.splits)
qed

lemma check_and_update_events:
  assumes "check_and_update w m l c cache = (r, cache', ev)"
  shows "(\<forall>e\<in>set ev. \<not> frame_event e)
       \<and> checked_ids ev = (if client w = None then [] else [c_id c])
       \<and> (\<forall>e. fst (perform_single_check w (c_id c) cache) = Inl e \<longrightarrow> r = Inl e)"
proof (cases "perform_single_check w (c_id c) cache")
  case (fields r1 cache1 ev1)
  note ce = check_events [OF fields]
  obtain r2 ev2 where t: "trigger_updater_engine w (c_name c) = (r2, ev2)"
    by (cases "trigger_updater_engine w (c_name c)")
  note te = trigger_events [OF t]
  from assms fields t ce te show ?thesis
    by (auto simp: check_and_update_def checked_ids_append
             split: sum.splits if_splits bool.splits)
qed

lemma process_container_events:
  assumes "process_container w m l c cache = (r, cache', ev)"
  shows "r = Inr () \<and> (\<forall>e\<in>set ev. \<not> frame_event e)
       \<and> checked_ids ev = (if client w = None \<or> excluded w c then [] else [c_id c])
       \<and> (\<forall>e. \<not> excluded w c \<and> fst (check_and_update w m l c cache) = Inl e
               \<longrightarrow> LogFailed (c_name c) e \<in> set ev)"
proof -
  obtain nm where nm: "get_image_name c = Inr nm"
    using get_image_name_total by blast
  obtain r1 cache1 ev1 where cu: "check_and_update w m l c cache = (r1, cache1, ev1)"
    by (cases "check_and_update w m l c cache")
  note ce = check_and_update_events [OF cu]
  from assms nm cu ce show ?thesis
    by (auto simp: process_container_def excluded_def checked_ids_append
             split: sum.splits if_splits)
qed

lemma for_containers_events:
  assumes "for_containers w m l cs cache = (r, cache', ev)"
  shows "r = Inr () \<and> (\<forall>e\<in>set ev. \<not> frame_event e)
       \<and> checked_ids ev = (if client w = None then [] else map c_id (filter (\<lambda>c. \<not> excluded w c) cs))
       \<and> (\<forall>c\<in>set cs. \<forall>e. \<not> excluded w c \<and> fst (check_and_update w m l c Map.empty) = Inl e
               \<longrightarrow> LogFailed (c_name c) e \<in> set ev)"
  using assms
proof (induction cs arbitrary: cache r cache' ev)
  case Nil
  then show ?case by simp
next
  case (Cons c cs)
  obtain r1 cache1 ev1 where p: "process_container w m l c cache = (r1, cache1, ev1)"
    by (cases "process_container w m l c cache")
  note pe = process_container_events [OF p]
  obtain r2 cache2 ev2 where f: "for_containers w m l cs cache1 = (r2, cache2, ev2)"
    by (cases "for_containers w m l cs cache1")
  note ih = Cons.IH [OF f]
  from Cons.prems p f pe have eq: "r = r2" "cache' = cache2" "ev = ev1 @ ev2"
    by simp_all
  have logged: "\<And>e. \<not> excluded w c \<Longrightarrow> fst (check_and_update w m l c Map.empty) = Inl e
                  \<Longrightarrow> LogFailed (c_name c) e \<in> set ev1"
    using pe check_and_update_any_cache [of w m l c Map.empty cache] by simp
  from eq pe ih logged show ?case
    by (auto simp: checked_ids_append)
qed

lemma check_cycle_events:
  assumes "check_cycle w cfg cache = (r, cache', ev)"
  shows "(r = Inr () \<longleftrightarrow> (\<exists>cl cs. client w = Some cl \<and> containers_list cl = Inr cs))
       \<and> (LogCycleFinished \<in> set ev \<longleftrightarrow> r = Inr ())
       \<and> (ListContainers \<in> set ev \<longleftrightarrow> client w \<noteq> None)
       \<and> LogCycleStart \<notin> set ev
       \<and> (\<forall>cl cs. client w = Some cl \<and> containers_list cl = Inr cs \<longrightarrow>
            checked_ids ev = map c_id (filter (\<lambda>c. \<not> excluded w c) cs)
            \<and> (\<forall>c\<in>set cs. \<forall>e. \<not> excluded w c
                   \<and> fst (check_and_update w (dict_get cfg ''auto_update_mode'' (JStr ''off''))
                            (dict_get cfg ''auto_update_containers'' (JArr [])) c Map.empty) = Inl e
                 \<longrightarrow> LogFailed (c_name c) e \<in> set ev))"
proof (cases "client w")
  case None
  with assms show ?thesis by (auto simp: check_cycle_def)
next
  case (Some cl)
  show ?thesis
  proof (cases "containers_list cl")
    case (Inl e)
    with Some assms show ?thesis by (auto simp: check_cycle_def)
  next
    case (Inr cs)
    let ?m = "dict_get cfg ''auto_update_mode'' (JStr ''off'')"
    let ?l = "dict_get cfg ''auto_update_containers'' (JArr [])"
    obtain r2 cache2 ev2 where f: "for_containers w ?m ?l cs cache = (r2, cache2, ev2)"
      by (cases "for_containers w ?m ?l cs cache")
    note fe = for_containers_events [OF f]
    have nf: "LogCycleFinished \<notin> set ev2" "ListContainers \<notin> set ev2" "LogCycleStart \<notin> set ev2"
      using fe by auto
    from assms Some Inr f fe have "r = Inr ()" "ev = ListContainers # ev2 @ [LogCycleFinished]"
      by (auto simp: check_cycle_def Let_def)
    with Some Inr fe nf show ?thesis
      by (auto simp: checked_ids_append)
  qed
qed


lemma load_config_events:
  "snd (load_config f) = [] \<or> (\<exists>e. snd (load_config f) = [LogConfigError e])"
  by (auto simp: load_config_def split: sum.splits)

lemma idle_iteration:
  assumes "check_mode w \<noteq> JStr ''background''"
  shows "worker_iteration w st = (st, snd (load_config (config_file w)) @ [Sleep 10])"
proof -
  obtain ev0 where l: "load_config (config_file w) = (Inr (current_config w), ev0)"
    using load_config_current by blast
  with assms show ?thesis
    by (simp add: worker_iteration_def iteration_body_def check_mode_def Let_def)
qed

lemma worker_iteration_cases:
  assumes "worker_iteration w st = (st', ev)"
  shows "(LogCycleStart \<in> set ev \<longleftrightarrow>
            check_mode w = JStr ''background''
            \<and> (\<exists>n. check_interval w = Inr n
                   \<and> float_ge_int (float_sub (time_at_gate w) (last_check_time st)) (n * 60)))
       \<and> (ListContainers \<in> set ev \<longleftrightarrow> LogCycleStart \<in> set ev \<and> client w \<noteq> None)
       \<and> last_check_time st' =
           (if LogCycleFinished \<in> set ev then time_after_loop w else last_check_time st)
       \<and> (LogCycleFinished \<in> set ev \<longrightarrow>
            (\<exists>cl cs. client w = Some cl \<and> containers_list cl = Inr cs
                \<and> checked_ids ev = map c_id (filter (\<lambda>c. \<not> excluded w c) cs)))"
proof -
  obtain ev0 where l: "load_config (config_file w) = (Inr (current_config w), ev0)"
    using load_config_current by blast
  from load_config_events [of "config_file w"] l
  have ev0: "ev0 = [] \<or> (\<exists>e. ev0 = [LogConfigError e])" by simp
  then have ev0n: "LogCycleStart \<notin> set ev0" "ListContainers \<notin> set ev0"
    "LogCycleFinished \<notin> set ev0" "checked_ids ev0 = []"
    by auto
  show ?thesis
  proof (cases "check_mode w = JStr ''background''")
    case False
    from idle_iteration [OF False, of st] False assms l ev0n show ?thesis by auto
  next
    case bg: True
    show ?thesis
    proof (cases "check_interval w")
      case (Inl e)
      with assms l bg ev0n show ?thesis
        by (auto simp: worker_iteration_def iteration_body_def check_mode_def
              check_interval_def Let_def)
    next
      case (Inr n)
      show ?thesis
      proof (cases "float_ge_int (float_sub (time_at_gate w) (last_check_time st)) (n * 60)")
        case False
        with assms l bg Inr ev0n show ?thesis
          by (auto simp: worker_iteration_def iteration_body_def check_mode_def
                check_interval_def Let_def)
      next
        case True
        obtain r cache1 ev1
          where c: "check_cycle w (current_config w) (server_cache st) = (r, cache1, ev1)"
          by (cases "check_cycle w (current_config w) (server_cache st)")
        note cc = check_cycle_events [OF c]
        show ?thesis
        proof (cases r)
          case (Inl e)
          with assms l bg Inr True c
          have "st' = st\<lparr>server_cache := cache1\<rparr>"
            "ev = ev0 @ [LogCycleStart] @ ev1 @ [LogLoopError e] @ [Sleep 10]"
            by (auto simp: worker_iteration_def iteration_body_def check_mode_def
                  check_interval_def Let_def)
          with cc Inl bg Inr True ev0n show ?thesis by auto
        next
          case (Inr u)
          with assms l bg \<open>check_interval w = Inr n\<close> True c
          have "st' = \<lparr>last_check_time = time_after_loop w, server_cache = cache1\<rparr>"
            "ev = ev0 @ [LogCycleStart] @ ev1 @ [Sleep 10]"
            by (auto simp: worker_iteration_def iteration_body_def check_mode_def
                  check_interval_def Let_def)
          with cc Inr bg \<open>check_interval w = Inr n\<close> True ev0n show ?thesis
            by (auto simp: checked_ids_append)
        qed
      qed
    qed
  qed
qed

lemmas worker_defs = worker_iteration_def iteration_body_def check_cycle_def process_container_def
  check_and_update_def should_update_def trigger_updater_engine_def load_config_def dict_get_def
  DEFAULT_CONFIG_def UPDATER_IMAGE_def

lemma ex_iteration:
  "worker_iteration ex_world initial_state =
     (\<lparr>last_check_time = 1005, server_cache = Map.empty\<rparr>,
      [LogCycleStart, ListContainers,
       GetContainer ''id-db'', Pull ''postgres:16'', LogFailed ''db'' (OtherError ''timeout''),
       GetContainer ''id-web'', Pull ''nginx:latest'', LogAutoUpdate ''web'', LogPullUpdater,
       Pull ''containrrr/watchtower'', LogUpdaterPullFailed NotFound,
       Run ''containrrr/watchtower'' ''--run-once web'',
       LogCycleFinished, Sleep 10])"
  by (simp add: worker_defs check_defs ex_defs initial_state_def ex_elapsed)


lemma ex_excluded:
  "excluded ex_world ex_self" "excluded ex_world ex_wt"
  "\<not> excluded ex_world ex_db" "\<not> excluded ex_world ex_web"
  by (simp_all add: excluded_def get_image_name_def image_name_body_def ex_defs)

section \<open>When a cycle runs\<close>

text \<open>
  C6.  Two consecutive iterations of the worker.  The elapsed time is what the program
  computes: the float difference of the reading at the gate and the stored time,
  compared with the integer number of seconds.  The second iteration lists the
  containers exactly when the client is there, \<^verbatim>\<open>check_mode\<close> is \<^verbatim>\<open>'background'\<close>,
  \<^verbatim>\<open>check_interval\<close> converts to an integer \<open>n\<close>, and the elapsed time is at least
  \<open>n * 60\<close>.  The first stores a time only when its loop over the containers ran to
  the end, after every container that is not excluded was checked, and then it stores
  the one reading taken after the loop; otherwise the stored time is unchanged.  So
  after a completed cycle, the next iteration in background mode lists the containers
  if and only if at least the interval has elapsed since that reading.
\<close>

theorem background_cycle_gate:
  assumes "worker_iteration w1 st0 = (st1, ev1)" and "worker_iteration w2 st1 = (st2, ev2)"
  shows "(ListContainers \<in> set ev2 \<longleftrightarrow>
            client w2 \<noteq> None \<and> check_mode w2 = JStr ''background''
            \<and> (\<exists>n. check_interval w2 = Inr n
                   \<and> float_ge_int (float_sub (time_at_gate w2) (last_check_time st1)) (n * 60)))
       \<and> last_check_time st1 =
           (if LogCycleFinished \<in> set ev1 then time_after_loop w1 else last_check_time st0)
       \<and> (LogCycleFinished \<in> set ev1 \<longrightarrow>
            (\<exists>cl cs. client w1 = Some cl \<and> containers_list cl = Inr cs
                \<and> checked_ids ev1 = map c_id (filter (\<lambda>c. \<not> excluded w1 c) cs)))
       \<and> (\<forall>n. LogCycleFinished \<in> set ev1 \<and> client w2 \<noteq> None
                \<and> check_mode w2 = JStr ''background'' \<and> check_interval w2 = Inr n \<longrightarrow>
              (ListContainers \<in> set ev2 \<longleftrightarrow>
                 float_ge_int (float_sub (time_at_gate w2) (time_after_loop w1)) (n * 60)))"
  using worker_iteration_cases [OF assms(1)] worker_iteration_cases [OF assms(2)]
  by auto

theorem background_cycle_gate_witness:
  "ListContainers \<in> set (snd (worker_iteration ex_world initial_state))
   \<and> LogCycleFinished \<in> set (snd (worker_iteration ex_world initial_state))
   \<and> last_check_time (fst (worker_iteration ex_world initial_state)) = 1005
   \<and> ListContainers \<notin> set (snd (worker_iteration (ex_world\<lparr>time_at_gate := 1064\<rparr>)
                                   (fst (worker_iteration ex_world initial_state))))
   \<and> ListContainers \<in> set (snd (worker_iteration (ex_world\<lparr>time_at_gate := 1065\<rparr>)
                                   (fst (worker_iteration ex_world initial_state))))"
proof -
  let ?st1 = "\<lparr>last_check_time = 1005, server_cache = Map.empty\<rparr>"
  have cfg: "\<And>t. check_mode (ex_world\<lparr>time_at_gate := t\<rparr>) = JStr ''background''"
    "\<And>t. check_interval (ex_world\<lparr>time_at_gate := t\<rparr>) = Inr 1"
    "\<And>t. client (ex_world\<lparr>time_at_gate := t\<rparr>) \<noteq> None"
    by (simp_all add: check_mode_def check_interval_def current_config_def load_config_def
          dict_get_def ex_world_def ex_config_def)
  have a: "\<And>t. worker_iteration (ex_world\<lparr>time_at_gate := t\<rparr>) ?st1 =
             (fst (worker_iteration (ex_world\<lparr>time_at_gate := t\<rparr>) ?st1),
              snd (worker_iteration (ex_world\<lparr>time_at_gate := t\<rparr>) ?st1))"
    by simp
  have tal: "time_after_loop ex_world = 1005"
    by (simp add: ex_world_def)
  from background_cycle_gate [OF ex_iteration a [of 1064]]
    background_cycle_gate [OF ex_iteration a [of 1065]] cfg
  show ?thesis
    by (simp add: ex_iteration tal ex_elapsed)
qed

section \<open>Failures inside a cycle\<close>

text \<open>
  C7.  Once the containers are listed, the cycle runs to its end whatever happens to
  single containers: the result is never an exception, the line that ends the cycle is
  logged, and the containers checked are, in order, all the listed ones that are not
  excluded.  For a list split at any container \<open>c\<close>: when the guarded body fails for \<open>c\<close>
  (the check raises, the membership test raises, or the updater cannot be started), the
  failure is logged with the container's name, and every container after \<open>c\<close> that is
  not excluded is still checked.
\<close>

theorem cycle_survives_container_failures:
  assumes "client w = Some cl" and "containers_list cl = Inr (pre @ c # post)"
    and "check_cycle w cfg cache = (r, cache', ev)"
  shows "r = Inr () \<and> LogCycleFinished \<in> set ev
       \<and> checked_ids ev = map c_id (filter (\<lambda>c. \<not> excluded w c) (pre @ c # post))
       \<and> (\<forall>e. \<not> excluded w c
               \<and> fst (check_and_update w (dict_get cfg ''auto_update_mode'' (JStr ''off''))
                        (dict_get cfg ''auto_update_containers'' (JArr [])) c Map.empty) = Inl e
             \<longrightarrow> LogFailed (c_name c) e \<in> set ev)
       \<and> (\<forall>c'\<in>set post. \<not> excluded w c' \<longrightarrow> c_id c' \<in> set (checked_ids ev))"
proof -
  note cc = check_cycle_events [OF assms(3)]
  from cc assms(1,2) have r: "r = Inr ()" "LogCycleFinished \<in> set ev" by auto
  from cc assms(1,2)
  have ids: "checked_ids ev = map c_id (filter (\<lambda>c. \<not> excluded w c) (pre @ c # post))"
    by blast
  from cc assms(1,2)
  have lg: "\<forall>c\<in>set (pre @ c # post). \<forall>e. \<not> excluded w c
               \<and> fst (check_and_update w (dict_get cfg ''auto_update_mode'' (JStr ''off''))
                        (dict_get cfg ''auto_update_containers'' (JArr [])) c Map.empty) = Inl e
             \<longrightarrow> LogFailed (c_name c) e \<in> set ev"
    by blast
  from r ids lg show ?thesis by auto
qed

theorem cycle_survives_container_failures_witness:
  "client ex_world = Some ex_docker
   \<and> containers_list ex_docker = Inr ([ex_self, ex_wt] @ ex_db # [ex_web])
   \<and> fst (check_cycle ex_world (current_config ex_world) Map.empty) = Inr ()
   \<and> LogFailed ''db'' (OtherError ''timeout'')
       \<in> set (snd (snd (check_cycle ex_world (current_config ex_world) Map.empty)))
   \<and> ''id-web''
       \<in> set (checked_ids (snd (snd (check_cycle ex_world (current_config ex_world) Map.empty))))"
proof -
  have h: "client ex_world = Some ex_docker"
    "containers_list ex_docker = Inr ([ex_self, ex_wt] @ ex_db # [ex_web])"
    by (simp_all add: ex_world_def ex_docker_def)
  have c: "check_cycle ex_world (current_config ex_world) Map.empty =
             (fst (check_cycle ex_world (current_config ex_world) Map.empty),
              fst (snd (check_cycle ex_world (current_config ex_world) Map.empty)),
              snd (snd (check_cycle ex_world (current_config ex_world) Map.empty)))"
    by simp
  have n: "c_id ex_db = ''id-db''" "c_name ex_db = ''db''" "c_id ex_web = ''id-web''"
    by (simp_all add: ex_db_def ex_web_def)
  have f: "fst (check_and_update ex_world m l ex_db Map.empty) = Inl (OtherError ''timeout'')"
    for m l
    by (simp add: check_and_update_def n ex_check_db)
  from cycle_survives_container_failures [OF h c] h f ex_excluded show ?thesis
    by (simp add: n)
qed

section \<open>The application itself and the updater are left out\<close>

text \<open>
  The test for the updater is the substring \<^verbatim>\<open>watchtower\<close>, which occurs in
  \<open>UPDATER_IMAGE\<close>: a container running the updater's image is excluded.
\<close>

lemma py_in_str_sublist: "py_in_str s t = sublist s t"
  by (induction t) (auto simp: sublist_Cons_right)

lemma watchtower_in_updater_image: "py_in_str ''watchtower'' UPDATER_IMAGE"
  by (simp add: UPDATER_IMAGE_def)

lemma updater_image_excluded:
  assumes "get_image_name c = Inr nm" and "py_in_str UPDATER_IMAGE nm"
  shows "excluded w c"
proof -
  from watchtower_in_updater_image assms(2) have "py_in_str ''watchtower'' nm"
    unfolding py_in_str_sublist by (rule sublist_order.order.trans)
  with assms(1) show ?thesis by (simp add: excluded_def)
qed

lemma collect_ids:
  "map cd_id (collect_containers w cache cs) = map c_id (filter (\<lambda>c. \<not> excluded w c) cs)"
proof (induction cs)
  case Nil
  show ?case by simp
next
  case (Cons c cs)
  obtain nm where "get_image_name c = Inr nm"
    using get_image_name_total by blast
  with Cons show ?case
    by (simp add: container_entry_def excluded_def)
qed

lemma excluded_id_filtered:
  assumes "distinct (map c_id cs)" and "c \<in> set cs" and "excluded w c"
  shows "c_id c \<notin> set (map c_id (filter (\<lambda>c. \<not> excluded w c) cs))"
proof
  assume "c_id c \<in> set (map c_id (filter (\<lambda>c. \<not> excluded w c) cs))"
  then obtain c' where c': "c' \<in> set cs" "\<not> excluded w c'" "c_id c' = c_id c"
    by auto
  from assms(1) have "inj_on c_id (set cs)"
    by (simp add: distinct_map)
  with c' assms(2) have "c' = c"
    by (auto dest: inj_onD)
  with c' assms(3) show False by simp
qed

text \<open>
  C8.  For every list of containers with distinct ids that the daemon returns, a
  container whose short id occurs in the host name, or whose image name contains
  \<^verbatim>\<open>watchtower\<close>, has no entry in the answer of \<^verbatim>\<open>list_containers\<close> and is not checked
  by the cycle of the worker: both take exactly the containers that are not excluded,
  in the order of the list.
\<close>

theorem self_and_updater_excluded:
  assumes "client w = Some cl" and "containers_list cl = Inr cs"
    and "distinct (map c_id cs)" and "c \<in> set cs" and "excluded w c"
  shows "(\<exists>ds. list_containers w cache = Ok200 ds
              \<and> map cd_id ds = map c_id (filter (\<lambda>c. \<not> excluded w c) cs)
              \<and> c_id c \<notin> set (map cd_id ds))
       \<and> checked_ids (snd (snd (check_cycle w cfg cache2)))
           = map c_id (filter (\<lambda>c. \<not> excluded w c) cs)
       \<and> c_id c \<notin> set (checked_ids (snd (snd (check_cycle w cfg cache2))))"
proof -
  have l: "list_containers w cache = Ok200 (collect_containers w cache cs)"
    using assms(1,2) by (simp add: list_containers_def)
  obtain r cache' ev where cc: "check_cycle w cfg cache2 = (r, cache', ev)"
    by (cases "check_cycle w cfg cache2")
  from check_cycle_events [OF cc] assms(1,2)
  have ids: "checked_ids ev = map c_id (filter (\<lambda>c. \<not> excluded w c) cs)"
    by blast
  note ex = excluded_id_filtered [OF assms(3,4,5)]
  have a: "c_id c \<notin> set (map cd_id (collect_containers w cache cs))"
    unfolding collect_ids by (rule ex)
  have b: "c_id c \<notin> set (checked_ids ev)"
    unfolding ids by (rule ex)
  from l a collect_ids [of w cache cs]
  have "\<exists>ds. list_containers w cache = Ok200 ds
              \<and> map cd_id ds = map c_id (filter (\<lambda>c. \<not> excluded w c) cs)
              \<and> c_id c \<notin> set (map cd_id ds)"
    by blast
  with ids b cc show ?thesis by simp
qed

theorem self_and_updater_excluded_witness:
  "client ex_world = Some ex_docker
   \<and> containers_list ex_docker = Inr [ex_self, ex_wt, ex_db, ex_web]
   \<and> excluded ex_world ex_self \<and> excluded ex_world ex_wt
   \<and> (\<exists>ds. list_containers ex_world Map.empty = Ok200 ds \<and> map cd_id ds = [''id-db'', ''id-web''])
   \<and> checked_ids (snd (snd (check_cycle ex_world (current_config ex_world) Map.empty)))
       = [''id-db'', ''id-web'']"
proof -
  have h: "client ex_world = Some ex_docker"
    "containers_list ex_docker = Inr [ex_self, ex_wt, ex_db, ex_web]"
    by (simp_all add: ex_world_def ex_docker_def)
  have n: "c_id ex_self = ''id-self''" "c_id ex_wt = ''id-wt''"
    "c_id ex_db = ''id-db''" "c_id ex_web = ''id-web''"
    by (simp_all add: ex_self_def ex_wt_def ex_db_def ex_web_def)
  have d: "distinct (map c_id [ex_self, ex_wt, ex_db, ex_web])"
    by (simp add: n)
  have m: "ex_self \<in> set [ex_self, ex_wt, ex_db, ex_web]"
    by simp
  from self_and_updater_excluded [OF h d m ex_excluded(1), of Map.empty "current_config ex_world" Map.empty]
    h ex_excluded
  show ?thesis by (auto simp: n)
qed


section \<open>Loading the configuration\<close>

text \<open>
  C9.  \<^verbatim>\<open>load_config\<close> never raises.  For a stored JSON object the loaded
  document holds every field of the stored object with its stored value, whether the
  field is a recognized one or not, and every other field of the defaults with its
  default value.  For a file that is missing, cannot be opened, cannot be parsed or
  holds a JSON value that is not an object, the loaded document is the defaults.
\<close>

theorem load_config_merges_defaults:
  "\<exists>cfg. fst (load_config f) = Inr cfg
     \<and> (\<forall>kvs. f = Stored (JObj kvs) \<longrightarrow>
          (\<forall>k. cfg k = (case map_of kvs k of Some v \<Rightarrow> Some v | None \<Rightarrow> DEFAULT_CONFIG k)))
     \<and> ((\<forall>kvs. f \<noteq> Stored (JObj kvs)) \<longrightarrow> cfg = DEFAULT_CONFIG)"
proof (cases "\<exists>kvs. f = Stored (JObj kvs)")
  case True
  then obtain kvs where "f = Stored (JObj kvs)" by blast
  then show ?thesis
    by (auto simp: load_config_def map_add_def split: option.splits)
next
  case False
  have "fst (load_config f) = Inr DEFAULT_CONFIG"
  proof (cases f)
    case (Stored v)
    with False show ?thesis by (cases v) (simp_all add: load_config_def)
  qed (simp_all add: load_config_def)
  with False show ?thesis by simp
qed

theorem load_config_merges_defaults_witness:
  "\<exists>cfg. fst (load_config (Stored (JObj [(''check_mode'', JStr ''background''),
                                         (''theme'', JStr ''dark'')]))) = Inr cfg
     \<and> cfg ''check_mode'' = Some (JStr ''background'')
     \<and> cfg ''check_interval'' = Some (JInt 60)
     \<and> cfg ''auto_update_mode'' = Some (JStr ''off'')
     \<and> cfg ''auto_update_containers'' = Some (JArr [])
     \<and> cfg ''theme'' = Some (JStr ''dark'')"
  using load_config_merges_defaults
    [of "Stored (JObj [(''check_mode'', JStr ''background''), (''theme'', JStr ''dark'')])"]
  by (auto simp: DEFAULT_CONFIG_def)

text \<open>
  C9, with unknown fields dropped, fails: the stored document \<^verbatim>\<open>{"theme": "dark"}\<close> has a field that is not
  among the defaults, and the loaded document holds it.
\<close>

theorem load_config_keeps_unknown_fields:
  "fst (load_config (Stored (JObj [(''theme'', JStr ''dark'')])))
     = Inr (DEFAULT_CONFIG(''theme'' \<mapsto> JStr ''dark''))
   \<and> DEFAULT_CONFIG ''theme'' = None
   \<and> (DEFAULT_CONFIG(''theme'' \<mapsto> JStr ''dark'')) ''theme'' = Some (JStr ''dark'')"
  by (simp add: load_config_def DEFAULT_CONFIG_def)

section \<open>The modes that never start a cycle\<close>

lemma background_worker_idle:
  assumes "\<forall>w\<in>set ws. check_mode w \<noteq> JStr ''background''"
  shows "fst (background_worker ws st) = st
       \<and> (\<forall>e\<in>set (snd (background_worker ws st)). e = Sleep 10 \<or> (\<exists>x. e = LogConfigError x))"
  using assms
proof (induction ws)
  case Nil
  show ?case by simp
next
  case (Cons w ws)
  then have idle: "worker_iteration w st = (st, snd (load_config (config_file w)) @ [Sleep 10])"
    by (simp add: idle_iteration)
  from Cons have ih: "fst (background_worker ws st) = st"
    "\<forall>e\<in>set (snd (background_worker ws st)). e = Sleep 10 \<or> (\<exists>x. e = LogConfigError x)"
    by simp_all
  from load_config_events [of "config_file w"] idle ih show ?case
    by (auto split: prod.splits)
qed

text \<open>
  C10.  With \<^verbatim>\<open>check_mode\<close> equal to \<^verbatim>\<open>'startup'\<close> or \<^verbatim>\<open>'manual'\<close>, an iteration of the
  worker leaves its state as it was and does nothing but log a configuration file it
  could not read and sleep ten seconds: no listing, no check, no pull, no updater.  An
  iteration that does anything else has \<^verbatim>\<open>check_mode\<close> equal to \<^verbatim>\<open>'background'\<close>.  Two
  stored documents that differ only in having \<^verbatim>\<open>'startup'\<close> or \<^verbatim>\<open>'manual'\<close> give the
  same iteration.  And the worker started from its initial state, through any number of
  iterations in these two modes, keeps the initial state: nothing is checked at the
  start of the process.
\<close>

theorem idle_unless_background:
  "(check_mode w = JStr ''startup'' \<or> check_mode w = JStr ''manual'' \<longrightarrow>
      worker_iteration w st = (st, snd (load_config (config_file w)) @ [Sleep 10]))
   \<and> (worker_iteration w st \<noteq> (st, snd (load_config (config_file w)) @ [Sleep 10]) \<longrightarrow>
        check_mode w = JStr ''background'')
   \<and> worker_iteration (w\<lparr>config_file := Stored (JObj ((''check_mode'', JStr ''startup'') # kvs))\<rparr>) st
       = worker_iteration (w\<lparr>config_file := Stored (JObj ((''check_mode'', JStr ''manual'') # kvs))\<rparr>) st
   \<and> ((\<forall>w'\<in>set ws. check_mode w' = JStr ''startup'' \<or> check_mode w' = JStr ''manual'') \<longrightarrow>
        fst (background_worker ws initial_state) = initial_state
        \<and> (\<forall>e\<in>set (snd (background_worker ws initial_state)).
              e = Sleep 10 \<or> (\<exists>x. e = LogConfigError x)))"
proof -
  have a: "check_mode w = JStr ''startup'' \<or> check_mode w = JStr ''manual'' \<longrightarrow>
      worker_iteration w st = (st, snd (load_config (config_file w)) @ [Sleep 10])"
    by (auto simp: idle_iteration)
  have b: "worker_iteration w st \<noteq> (st, snd (load_config (config_file w)) @ [Sleep 10]) \<longrightarrow>
        check_mode w = JStr ''background''"
    using idle_iteration [of w st] by blast
  let ?s = "w\<lparr>config_file := Stored (JObj ((''check_mode'', JStr ''startup'') # kvs))\<rparr>"
  let ?m = "w\<lparr>config_file := Stored (JObj ((''check_mode'', JStr ''manual'') # kvs))\<rparr>"
  have ms: "check_mode ?s = JStr ''startup''" "check_mode ?m = JStr ''manual''"
    by (simp_all add: check_mode_def current_config_def load_config_def dict_get_def)
  have "worker_iteration ?s st = (st, [Sleep 10])" "worker_iteration ?m st = (st, [Sleep 10])"
    using idle_iteration [of ?s st] idle_iteration [of ?m st] ms
    by (simp_all add: load_config_def)
  then have c: "worker_iteration ?s st = worker_iteration ?m st" by simp
  have d: "(\<forall>w'\<in>set ws. check_mode w' = JStr ''startup'' \<or> check_mode w' = JStr ''manual'') \<longrightarrow>
        fst (background_worker ws initial_state) = initial_state
        \<and> (\<forall>e\<in>set (snd (background_worker ws initial_state)).
              e = Sleep 10 \<or> (\<exists>x. e = LogConfigError x))"
  proof
    assume "\<forall>w'\<in>set ws. check_mode w' = JStr ''startup'' \<or> check_mode w' = JStr ''manual''"
    then have "\<forall>w'\<in>set ws. check_mode w' \<noteq> JStr ''background''" by auto
    then show "fst (background_worker ws initial_state) = initial_state
        \<and> (\<forall>e\<in>set (snd (background_worker ws initial_state)).
              e = Sleep 10 \<or> (\<exists>x. e = LogConfigError x))"
      by (rule background_worker_idle)
  qed
  from a b c d show ?thesis by blast
qed

theorem idle_unless_background_witness:
  "check_mode (ex_world\<lparr>config_file := Stored (JObj [(''check_mode'', JStr ''startup'')])\<rparr>)
     = JStr ''startup''
   \<and> worker_iteration (ex_world\<lparr>config_file := Stored (JObj [(''check_mode'', JStr ''startup'')])\<rparr>)
       initial_state = (initial_state, [Sleep 10])
   \<and> check_mode (ex_world\<lparr>config_file := Missing\<rparr>) = JStr ''manual''
   \<and> background_worker [ex_world\<lparr>config_file := Stored (JObj [(''check_mode'', JStr ''startup'')])\<rparr>,
                          ex_world\<lparr>config_file := Missing\<rparr>] initial_state
       = (initial_state, [Sleep 10, Sleep 10])
   \<and> ListContainers \<in> set (snd (worker_iteration ex_world initial_state))"
proof -
  let ?s = "ex_world\<lparr>config_file := Stored (JObj [(''check_mode'', JStr ''startup'')])\<rparr>"
  let ?m = "ex_world\<lparr>config_file := Missing\<rparr>"
  have ms: "check_mode ?s = JStr ''startup''" "check_mode ?m = JStr ''manual''"
    by (simp_all add: check_mode_def current_config_def load_config_def dict_get_def
          DEFAULT_CONFIG_def)
  have l: "snd (load_config (config_file ?s)) = []" "snd (load_config (config_file ?m)) = []"
    by (simp_all add: load_config_def)
  from idle_unless_background [of ?s initial_state "[]" "[]", THEN conjunct1] ms l
  have s: "worker_iteration ?s initial_state = (initial_state, [Sleep 10])" by simp
  from idle_unless_background [of ?m initial_state "[]" "[]", THEN conjunct1] ms l
  have m: "worker_iteration ?m initial_state = (initial_state, [Sleep 10])" by simp
  from ms s m show ?thesis
    by (simp add: ex_iteration)
qed

end
